theory Spec2Isabelle
  imports Complex_Main "HOL-Library.AList" "HOL-Library.Multiset"
begin

section \<open>Python values\<close>

text \<open>
  The program (\<^verbatim>\<open>scraper/scraper.py\<close>) works on the values that \<^verbatim>\<open>json.load\<close> and
  \<^verbatim>\<open>response.json()\<close> produce: \<^verbatim>\<open>None\<close>, booleans, integers, floats, strings, lists and
  dicts. A dict is an association list read with \<open>map_of\<close> (the first binding of a key is
  the dict's value for it). A string is the UTF-8 encoding of the Python string. Floats are
  the real numbers they denote: binary rounding, infinities and NaN are outside the model.
\<close>

datatype json =
    JNull
  | JBool bool
  | JInt int
  | JFloat real
  | JStr string
  | JList "json list"
  | JDict "(string \<times> json) list"

text \<open>The exceptions the code can raise, as values.\<close>

datatype error =
    ValueError string       \<comment> \<open>\<^verbatim>\<open>raise ValueError(msg)\<close> written in the source\<close>
  | FloatValueError         \<comment> \<open>\<^verbatim>\<open>float(s)\<close> on a string that is no number\<close>
  | OverflowError           \<comment> \<open>\<^verbatim>\<open>float(i)\<close> and \<^verbatim>\<open>x / i\<close> on an integer beyond the range of a float\<close>
  | TypeError               \<comment> \<open>\<^verbatim>\<open>float(x)\<close>, \<^verbatim>\<open>round(x, 2)\<close> on \<^verbatim>\<open>None\<close>, a list or a dict; a call
                                with the wrong number of arguments\<close>
  | AttributeError          \<comment> \<open>\<^verbatim>\<open>x.get(k)\<close> on a value that is no dict\<close>
  | IndexError              \<comment> \<open>\<^verbatim>\<open>xs[i]\<close> out of range\<close>
  | KeyError                \<comment> \<open>\<^verbatim>\<open>d[k]\<close> on a missing key\<close>
  | RequestError            \<comment> \<open>raised by \<^verbatim>\<open>session.get\<close>/\<^verbatim>\<open>post\<close>, \<^verbatim>\<open>raise_for_status\<close> or
                                \<^verbatim>\<open>response.json\<close>\<close>

text \<open>Truth value of a Python object, as \<^verbatim>\<open>not x\<close>, \<^verbatim>\<open>if x\<close> and \<^verbatim>\<open>x or y\<close> test it.\<close>

fun truthy :: "json \<Rightarrow> bool" where
  "truthy JNull = False"
| "truthy (JBool b) = b"
| "truthy (JInt i) = (i \<noteq> 0)"
| "truthy (JFloat x) = (x \<noteq> 0)"
| "truthy (JStr s) = (s \<noteq> [])"
| "truthy (JList xs) = (xs \<noteq> [])"
| "truthy (JDict kvs) = (kvs \<noteq> [])"

text \<open>\<^verbatim>\<open>a or b\<close>: \<open>a\<close> when it is truthy, else \<open>b\<close>; an exception in \<open>a\<close> propagates.\<close>

definition py_or :: "error + json \<Rightarrow> error + json \<Rightarrow> error + json" where
  "py_or a b = (case a of Inl e \<Rightarrow> Inl e | Inr v \<Rightarrow> if truthy v then Inr v else b)"

text \<open>\<^verbatim>\<open>d.get(k)\<close> on a dict: the value, or \<^verbatim>\<open>None\<close>.\<close>

definition dict_get :: "(string \<times> json) list \<Rightarrow> string \<Rightarrow> json" where
  "dict_get d k = (case map_of d k of None \<Rightarrow> JNull | Some v \<Rightarrow> v)"

text \<open>\<^verbatim>\<open>x.get(k)\<close> on any value: only a dict has the method.\<close>

fun py_get :: "json \<Rightarrow> string \<Rightarrow> error + json" where
  "py_get (JDict d) k = Inr (dict_get d k)"
| "py_get _ k = Inl AttributeError"

text \<open>\<^verbatim>\<open>xs[i]\<close> on a list: a negative index counts from the end.\<close>

definition list_index :: "json list \<Rightarrow> int \<Rightarrow> error + json" where
  "list_index xs i =
     (if 0 \<le> i \<and> i < int (length xs) then Inr (xs ! nat i)
      else if i < 0 \<and> - int (length xs) \<le> i then Inr (xs ! nat (int (length xs) + i))
      else Inl IndexError)"

text \<open>
  An integer converts to a float when it rounds to a finite one: from \<open>2^1024 - 2^970\<close> on,
  \<^verbatim>\<open>float(i)\<close> and the division of a float by \<open>i\<close> raise \<^verbatim>\<open>OverflowError\<close>.
\<close>

definition float_overflows :: "int \<Rightarrow> bool" where
  "float_overflows i = (2 ^ 1024 - 2 ^ 970 \<le> \<bar>i\<bar>)"

text \<open>
  \<^verbatim>\<open>float(x)\<close>. Parsing a string is the library's; it is the parameter \<open>parse\<close>
  (\<open>None\<close> where \<^verbatim>\<open>float\<close> raises \<^verbatim>\<open>ValueError\<close>).
\<close>

fun py_float :: "(string \<Rightarrow> real option) \<Rightarrow> json \<Rightarrow> error + real" where
  "py_float parse (JFloat x) = Inr x"
| "py_float parse (JInt i) = (if float_overflows i then Inl OverflowError else Inr (real_of_int i))"
| "py_float parse (JBool b) = Inr (if b then 1 else 0)"
| "py_float parse (JStr s) = (case parse s of None \<Rightarrow> Inl FloatValueError | Some x \<Rightarrow> Inr x)"
| "py_float parse _ = Inl TypeError"

subsection \<open>\<^verbatim>\<open>int(s)\<close> on a string\<close>

text \<open>
  What \<^verbatim>\<open>int\<close> takes from the interpreter: which code points from 128 on are white space
  and which are decimal digits (with their values) in its Unicode tables, and the limit on
  the number of digits (\<^verbatim>\<open>sys.get_int_max_str_digits()\<close>, 0 for none; it applies to more
  than 640 digits only).
\<close>

record interpreter =
  unicode_isspace :: "nat \<Rightarrow> bool"
  unicode_todecimal :: "nat \<Rightarrow> nat option"
  int_max_str_digits :: nat

text \<open>
  The code points of a string. \<open>utf8_loop k v\<close> reads the bytes with \<open>k\<close> continuation
  bytes of the current code point still to come and \<open>v\<close> its value so far. Only the UTF-8
  of a Python string is meant: a lead or continuation byte out of place gives \<open>None\<close>.
\<close>

fun utf8_loop :: "nat \<Rightarrow> nat \<Rightarrow> string \<Rightarrow> nat list option" where
  "utf8_loop k v [] = (if k = 0 then Some [] else None)"
| "utf8_loop k v (b # bs) =
     (if k = 0 then
        (if (of_char b :: nat) < 128 then map_option (Cons (of_char b)) (utf8_loop 0 0 bs)
         else if 194 \<le> (of_char b :: nat) \<and> (of_char b :: nat) < 224 then
           utf8_loop 1 (of_char b - 192) bs
         else if 224 \<le> (of_char b :: nat) \<and> (of_char b :: nat) < 240 then
           utf8_loop 2 (of_char b - 224) bs
         else if 240 \<le> (of_char b :: nat) \<and> (of_char b :: nat) < 245 then
           utf8_loop 3 (of_char b - 240) bs
         else None)
      else if 128 \<le> (of_char b :: nat) \<and> (of_char b :: nat) < 192 then
        (if k = 1 then map_option (Cons (v * 64 + (of_char b - 128))) (utf8_loop 0 0 bs)
         else utf8_loop (k - 1) (v * 64 + (of_char b - 128)) bs)
      else None)"

definition code_points :: "string \<Rightarrow> nat list option" where
  "code_points s = utf8_loop 0 0 s"

text \<open>
  \<^verbatim>\<open>int\<close> first rewrites a string that is not ASCII: code points below 127 stay, white
  space becomes a blank, a decimal digit becomes its ASCII digit, and anything else becomes
  a question mark, on which the conversion fails (the interpreter cuts the string there,
  which fails alike).
\<close>

definition to_ascii :: "interpreter \<Rightarrow> nat list \<Rightarrow> nat list" where
  "to_ascii py cs =
     (if list_all (\<lambda>c. c < 128) cs then cs
      else map (\<lambda>c. if c < 127 then c
                     else if c = 127 then 63
                     else if unicode_isspace py c then 32
                     else (case unicode_todecimal py c of
                             Some d \<Rightarrow> 48 + d
                           | None \<Rightarrow> 63)) cs)"

text \<open>
  The conversion proper: blanks, tabs and line ends around the number are skipped, one
  sign may lead, and the digits may hold single underscores between them. Anything else,
  and more digits than the limit, raise \<^verbatim>\<open>ValueError\<close> (here \<open>None\<close>).
\<close>

definition is_space :: "nat \<Rightarrow> bool" where
  "is_space c = (c = 32 \<or> (9 \<le> c \<and> c \<le> 13))"

definition strip :: "nat list \<Rightarrow> nat list" where
  "strip s = rev (dropWhile is_space (rev (dropWhile is_space s)))"

definition is_digit :: "nat \<Rightarrow> bool" where
  "is_digit c = (48 \<le> c \<and> c \<le> 57)"

text \<open>The digits that follow a digit, underscores dropped.\<close>

fun digits_from :: "nat list \<Rightarrow> nat list option" where
  "digits_from [] = Some []"
| "digits_from [c] = (if is_digit c then Some [c - 48] else None)"
| "digits_from (c # d # ds) =
     (if c = 95 then
        (if is_digit d then map_option (Cons (d - 48)) (digits_from ds) else None)
      else if is_digit c then map_option (Cons (c - 48)) (digits_from (d # ds))
      else None)"

definition py_nat :: "interpreter \<Rightarrow> nat list \<Rightarrow> nat option" where
  "py_nat py s =
     (case s of
        [] \<Rightarrow> None
      | c # cs \<Rightarrow>
          if is_digit c then
            (case digits_from cs of
               None \<Rightarrow> None
             | Some ds \<Rightarrow>
                 if 640 < Suc (length ds) \<and> 0 < int_max_str_digits py
                    \<and> int_max_str_digits py < Suc (length ds)
                 then None
                 else Some (foldl (\<lambda>a d. 10 * a + d) 0 ((c - 48) # ds)))
          else None)"

definition py_int :: "interpreter \<Rightarrow> string \<Rightarrow> int option" where
  "py_int py s =
     (case code_points s of
        None \<Rightarrow> None
      | Some cs \<Rightarrow>
          (case strip (to_ascii py cs) of
             [] \<Rightarrow> None
           | c # rest \<Rightarrow>
               if c = 45 then map_option (\<lambda>n. - int n) (py_nat py rest)
               else if c = 43 then map_option int (py_nat py rest)
               else map_option int (py_nat py (c # rest))))"

text \<open>\<^verbatim>\<open>s.split('.')\<close>: the pieces between the dots, at least one.\<close>

fun split_dot :: "string \<Rightarrow> string list" where
  "split_dot [] = [[]]"
| "split_dot (c # cs) =
     (if c = CHR ''.'' then [] # split_dot cs
      else (case split_dot cs of [] \<Rightarrow> [[c]] | w # ws \<Rightarrow> (c # w) # ws))"

section \<open>The path extractor\<close>

text \<open>
  \<^verbatim>\<open>extract_path\<close> (lines 79-98). The loop over the parts is \<open>extract_path_loop\<close>; its
  argument is the value of \<^verbatim>\<open>current\<close> before each part. The interpreter \<open>py\<close> is what
  \<^verbatim>\<open>int(part)\<close> needs.
\<close>

fun extract_path_loop :: "interpreter \<Rightarrow> json \<Rightarrow> string list \<Rightarrow> error + json" where
  "extract_path_loop py current [] = Inr current"
| "extract_path_loop py current (part # parts) =
     (case current of
        JNull \<Rightarrow> Inr JNull
      | JList xs \<Rightarrow>
          (case py_int py part of
             None \<Rightarrow> Inr JNull
           | Some idx \<Rightarrow>
               if idx \<ge> int (length xs) then Inr JNull
               else (case list_index xs idx of
                       Inl e \<Rightarrow> Inl e
                     | Inr v \<Rightarrow> extract_path_loop py v parts))
      | JDict d \<Rightarrow> extract_path_loop py (dict_get d part) parts
      | _ \<Rightarrow> Inr JNull)"

definition extract_path :: "interpreter \<Rightarrow> json \<Rightarrow> string option \<Rightarrow> error + json" where
  "extract_path py data dotted_path =
     (case dotted_path of
        None \<Rightarrow> Inr JNull
      | Some p \<Rightarrow> if p = [] then Inr JNull else extract_path_loop py data (split_dot p))"

section \<open>Configuration, requests and the environment\<close>

text \<open>\<^verbatim>\<open>PackConfig\<close> (lines 32-42).\<close>

record PackConfig =
  retailer :: string
  suburb :: string
  pack_size :: int
  url :: string
  source :: string
  product_id :: "string option"
  store_id :: "string option"
  headers :: "(string \<times> string) list option"
  extra :: "(string \<times> json) list option"

text \<open>
  One call of \<^verbatim>\<open>session.get\<close> or \<^verbatim>\<open>session.post\<close> with its keyword arguments
  (\<open>req_headers\<close> is \<open>None\<close> where the call passes no \<^verbatim>\<open>headers\<close>). The headers that the
  session adds by itself (line 322) are not part of it.
\<close>

record request =
  req_method :: string
  req_url :: string
  req_headers :: "(string \<times> string) list option"
  req_json :: "json option"
  req_timeout :: nat

text \<open>
  What the run reads from outside. \<open>http\<close> answers a request with the decoded body of a
  successful response, or \<open>None\<close> where \<^verbatim>\<open>session.get\<close>/\<^verbatim>\<open>post\<close>,
  \<^verbatim>\<open>response.raise_for_status()\<close> or \<^verbatim>\<open>response.json()\<close> raises; \<open>getenv\<close> is
  \<^verbatim>\<open>os.getenv\<close>; \<open>float_of_str\<close> is \<^verbatim>\<open>float\<close> on strings; \<open>python\<close> is the interpreter;
  \<open>now\<close> is the clock in whole seconds (\<^verbatim>\<open>int(time.time())\<close>), taken as constant during a
  run.
\<close>

record env =
  http :: "request \<Rightarrow> json option"
  getenv :: "string \<Rightarrow> string option"
  float_of_str :: "string \<Rightarrow> real option"
  python :: interpreter
  now :: int

definition USER_AGENT :: string where
  "USER_AGENT = ''Mozilla/5.0 (Macintosh; Intel Mac OS X 10_15_7) '' @
                ''AppleWebKit/537.36 (KHTML, like Gecko) '' @
                ''Chrome/123.0.0.0 Safari/537.36''"

text \<open>
  Dicts of strings keep their keys in the order of insertion: \<^verbatim>\<open>d[k] = v\<close> is
  \<open>AList.update\<close>, \<^verbatim>\<open>d.update(e)\<close> assigns the items of \<open>e\<close> one after the other, and
  \<^verbatim>\<open>d.setdefault(k, v)\<close> adds a key that is missing.
\<close>

definition dict_update :: "(string \<times> string) list \<Rightarrow> (string \<times> string) list \<Rightarrow> (string \<times> string) list" where
  "dict_update d e = fold (\<lambda>(k, v) acc. AList.update k v acc) e d"

definition setdefault :: "string \<Rightarrow> string \<Rightarrow> (string \<times> string) list \<Rightarrow> (string \<times> string) list" where
  "setdefault k v d = (case map_of d k of None \<Rightarrow> d @ [(k, v)] | Some _ \<Rightarrow> d)"

text \<open>\<^verbatim>\<open>normalise_headers\<close> (lines 72-76).\<close>

definition normalise_headers :: "(string \<times> string) list option \<Rightarrow> (string \<times> string) list" where
  "normalise_headers hs =
     (let merged = [(''User-Agent'', USER_AGENT), (''Accept'', ''application/json'')]
      in case hs of
           None \<Rightarrow> merged
         | Some h \<Rightarrow> if h \<noteq> [] then dict_update merged h else merged)"

text \<open>\<^verbatim>\<open>not s\<close> on an optional string: \<^verbatim>\<open>None\<close> and the empty string are falsy.\<close>

definition falsy_str :: "string option \<Rightarrow> bool" where
  "falsy_str s = (case s of None \<Rightarrow> True | Some t \<Rightarrow> t = [])"

section \<open>The retailer adapters\<close>

text \<open>
  Every adapter ends with the same statements (lines 126-136, 155-165, 200-210, 231-241,
  261-271), which differ in the message of the \<^verbatim>\<open>ValueError\<close> only:
  \<^verbatim>\<open>
    if price_total is None:
        raise ValueError(msg)
    if unit_price is None and pack.pack_size:
        unit_price = float(price_total) / pack.pack_size
    return {"price_total": float(price_total), "price_unit": float(unit_price),
            "checked_at": int(time.time())}
  \<close>
  They are \<open>price_payload\<close>.
\<close>

definition price_payload :: "env \<Rightarrow> PackConfig \<Rightarrow> string \<Rightarrow> json \<Rightarrow> json \<Rightarrow> error + json" where
  "price_payload e pack msg price_total unit_price =
     (if price_total = JNull then Inl (ValueError msg)
      else
        (case (if unit_price = JNull \<and> pack_size pack \<noteq> 0
               then (case py_float (float_of_str e) price_total of
                       Inl err \<Rightarrow> Inl err
                     | Inr t \<Rightarrow>
                         if float_overflows (pack_size pack) then Inl OverflowError
                         else Inr (JFloat (t / real_of_int (pack_size pack))))
               else Inr unit_price) of
           Inl err \<Rightarrow> Inl err
         | Inr unit_price' \<Rightarrow>
             (case py_float (float_of_str e) price_total of
                Inl err \<Rightarrow> Inl err
              | Inr t \<Rightarrow>
                  (case py_float (float_of_str e) unit_price' of
                     Inl err \<Rightarrow> Inl err
                   | Inr u \<Rightarrow>
                       Inr (JDict [(''price_total'', JFloat t),
                                   (''price_unit'', JFloat u),
                                   (''checked_at'', JInt (now e))])))))"

text \<open>
  The outcome of an adapter is its result and the requests it sent. \<open>send\<close> is the
  request, \<^verbatim>\<open>raise_for_status\<close> and \<^verbatim>\<open>response.json()\<close>, followed by the adapter's
  handling \<open>k\<close> of the body.
\<close>

definition send :: "env \<Rightarrow> request \<Rightarrow> (json \<Rightarrow> error + json) \<Rightarrow> (error + json) \<times> request list" where
  "send e req k =
     (case http e req of
        None \<Rightarrow> (Inl RequestError, [req])
      | Some data \<Rightarrow> (k data, [req]))"

subsection \<open>Dan Murphy's\<close>

text \<open>Lines 112-124: where the response holds the total price and the unit price.\<close>

definition dan_murphys_price_info :: "json \<Rightarrow> error + json" where
  "dan_murphys_price_info data =
     (case data of
        JDict d \<Rightarrow>
          (let price_info = (if truthy (dict_get d ''Price'') then dict_get d ''Price''
                             else dict_get d ''price'')
           in if \<not> truthy price_info \<and> map_of d ''Products'' \<noteq> None then
                (case (if truthy (dict_get d ''Products'') then dict_get d ''Products''
                       else if truthy (dict_get d ''products'') then dict_get d ''products''
                       else JList []) of
                   JList (p0 # ps) \<Rightarrow> py_or (py_get p0 ''Price'') (py_get p0 ''price'')
                 | _ \<Rightarrow> Inr price_info)
              else Inr price_info)
      | _ \<Rightarrow> Inr JNull)"

definition dan_murphys_prices :: "json \<Rightarrow> error + json \<times> json" where
  "dan_murphys_prices data =
     (case dan_murphys_price_info data of
        Inl err \<Rightarrow> Inl err
      | Inr price_info \<Rightarrow>
          if \<not> truthy price_info then
            Inl (ValueError ''Unable to locate price data for Dan Murphy's response'')
          else
            (case py_or (py_or (py_get price_info ''FinalPrice'') (py_get price_info ''Price''))
                        (py_get price_info ''SalePrice'') of
               Inl err \<Rightarrow> Inl err
             | Inr price_total \<Rightarrow>
                 (case py_or (py_get price_info ''UnitPrice'') (py_get price_info ''CupPrice'') of
                    Inl err \<Rightarrow> Inl err
                  | Inr unit_price \<Rightarrow> Inr (price_total, unit_price))))"

text \<open>\<^verbatim>\<open>fetch_dan_murphys\<close> (lines 101-136).\<close>

definition fetch_dan_murphys :: "env \<Rightarrow> PackConfig \<Rightarrow> (error + json) \<times> request list" where
  "fetch_dan_murphys e pack =
     (if falsy_str (product_id pack) then
        (Inl (ValueError ''product_id required for Dan Murphy's''), [])
      else
        (let store = (if falsy_str (store_id pack) then ''DMONLINE'' else the (store_id pack));
             u = ''https://api.danmurphys.com.au/apis/ui/product/v3/detail/'' @
                 the (product_id pack) @ ''?storeId='' @ store
         in send e \<lparr>req_method = ''GET'', req_url = u, req_headers = None, req_json = None,
                    req_timeout = 20\<rparr>
              (\<lambda>data. case dan_murphys_prices data of
                         Inl err \<Rightarrow> Inl err
                       | Inr (price_total, unit_price) \<Rightarrow>
                           price_payload e pack ''Dan Murphy's response missing price value''
                             price_total unit_price)))"

subsection \<open>BWS\<close>

text \<open>Lines 151-153.\<close>

definition bws_prices :: "json \<Rightarrow> error + json \<times> json" where
  "bws_prices data =
     (case py_or (py_or (py_get data ''price'') (py_get data ''Price'')) (Inr (JDict [])) of
        Inl err \<Rightarrow> Inl err
      | Inr price_info \<Rightarrow>
          (case py_or (py_or (py_get price_info ''current'') (py_get price_info ''ActualPrice''))
                      (py_get data ''price'') of
             Inl err \<Rightarrow> Inl err
           | Inr price_total \<Rightarrow>
               (case py_or (py_get price_info ''perItem'') (py_get price_info ''CupPrice'') of
                  Inl err \<Rightarrow> Inl err
                | Inr unit_price \<Rightarrow> Inr (price_total, unit_price))))"

text \<open>\<^verbatim>\<open>fetch_bws\<close> (lines 139-165).\<close>

definition fetch_bws :: "env \<Rightarrow> PackConfig \<Rightarrow> (error + json) \<times> request list" where
  "fetch_bws e pack =
     (if falsy_str (product_id pack) then (Inl (ValueError ''product_id required for BWS''), [])
      else
        (let hs = setdefault ''Origin'' ''https://bws.com.au''
                    (setdefault ''Referer'' ''https://bws.com.au/''
                       (normalise_headers (headers pack)));
             u = ''https://bws.com.au/api/products/'' @ the (product_id pack)
         in send e \<lparr>req_method = ''GET'', req_url = u, req_headers = Some hs, req_json = None,
                    req_timeout = 20\<rparr>
              (\<lambda>data. case bws_prices data of
                         Inl err \<Rightarrow> Inl err
                       | Inr (price_total, unit_price) \<Rightarrow>
                           price_payload e pack ''BWS response missing price''
                             price_total unit_price)))"

subsection \<open>Liquorland and First Choice\<close>

text \<open>Line 175: the brand's origin.\<close>

definition liquorland_origin :: "PackConfig \<Rightarrow> string" where
  "liquorland_origin pack =
     (if source pack = ''first_choice'' then ''https://www.firstchoiceliquor.com.au''
      else ''https://www.liquorland.com.au'')"

text \<open>Lines 179-187: the GraphQL query and the body of the request.\<close>

definition liquorland_query :: string where
  "liquorland_query =
     ''query ProductPricing($id: String!) {'' @
     '' product(productId: $id) {'' @
     '' pricing { current }'' @
     '' cupPrice'' @
     '' }'' @
     ''}''"

text \<open>Lines 193-198.\<close>

definition liquorland_prices :: "env \<Rightarrow> json \<Rightarrow> error + json \<times> json" where
  "liquorland_prices e data =
     (case extract_path (python e) data (Some ''data.product'') of
        Inl err \<Rightarrow> Inl err
      | Inr product \<Rightarrow>
          if \<not> truthy product then Inl (ValueError ''Liquorland API missing product node'')
          else
            (case extract_path (python e) product (Some ''pricing.current'') of
               Inl err \<Rightarrow> Inl err
             | Inr price_total \<Rightarrow>
                 (case extract_path (python e) product (Some ''cupPrice'') of
                    Inl err \<Rightarrow> Inl err
                  | Inr unit_price \<Rightarrow> Inr (price_total, unit_price))))"

text \<open>\<^verbatim>\<open>fetch_liquorland_like\<close> (lines 168-210).\<close>

definition fetch_liquorland_like :: "env \<Rightarrow> PackConfig \<Rightarrow> (error + json) \<times> request list" where
  "fetch_liquorland_like e pack =
     (if falsy_str (product_id pack) then
        (Inl (ValueError ''product_id required for Liquorland/First Choice''), [])
      else
        (let origin = liquorland_origin pack;
             hs = setdefault ''Referer'' (origin @ ''/'')
                    (setdefault ''Origin'' origin (normalise_headers (headers pack)));
             payload = JDict [(''query'', JStr liquorland_query),
                              (''variables'', JDict [(''id'', JStr (the (product_id pack)))])]
         in send e \<lparr>req_method = ''POST'', req_url = ''https://api.liquorland.com.au/graphql'',
                    req_headers = Some hs, req_json = Some payload, req_timeout = 20\<rparr>
              (\<lambda>data. case liquorland_prices e data of
                         Inl err \<Rightarrow> Inl err
                       | Inr (price_total, unit_price) \<Rightarrow>
                           price_payload e pack ''Liquorland API missing price''
                             price_total unit_price)))"

subsection \<open>Coles\<close>

text \<open>
  Line 214: \<^verbatim>\<open>credentials.get("coles_api_key") or os.getenv("COLES_API_KEY")\<close>. The
  credentials are a dict of strings.
\<close>

definition coles_api_key :: "env \<Rightarrow> (string \<times> string) list \<Rightarrow> string option" where
  "coles_api_key e credentials =
     (if falsy_str (map_of credentials ''coles_api_key'') then getenv e ''COLES_API_KEY''
      else map_of credentials ''coles_api_key'')"

text \<open>Lines 228-229.\<close>

definition coles_prices :: "env \<Rightarrow> json \<Rightarrow> error + json \<times> json" where
  "coles_prices e data =
     (case py_or (extract_path (python e) data (Some ''product.price.current''))
                 (extract_path (python e) data (Some ''productPrice.current'')) of
        Inl err \<Rightarrow> Inl err
      | Inr price_total \<Rightarrow>
          (case py_or (extract_path (python e) data (Some ''product.price.unit''))
                      (extract_path (python e) data (Some ''productPrice.unit'')) of
             Inl err \<Rightarrow> Inl err
           | Inr unit_price \<Rightarrow> Inr (price_total, unit_price)))"

text \<open>\<^verbatim>\<open>fetch_coles\<close> (lines 213-241).\<close>

definition fetch_coles :: "env \<Rightarrow> PackConfig \<Rightarrow> (string \<times> string) list \<Rightarrow> (error + json) \<times> request list" where
  "fetch_coles e pack credentials =
     (let api_key = coles_api_key e credentials
      in if falsy_str api_key then
           (Inl (ValueError ''Coles API key missing. Set COLES_API_KEY env var or config credential''), [])
         else if falsy_str (product_id pack) then
           (Inl (ValueError ''product_id required for Coles''), [])
         else
           (let hs = AList.update ''Ocp-Apim-Subscription-Key'' (the api_key)
                       (normalise_headers (headers pack));
                u = ''https://api.coles.com.au/product/v1/productdetail/'' @ the (product_id pack)
            in send e \<lparr>req_method = ''GET'', req_url = u, req_headers = Some hs, req_json = None,
                       req_timeout = 20\<rparr>
                 (\<lambda>data. case coles_prices e data of
                            Inl err \<Rightarrow> Inl err
                          | Inr (price_total, unit_price) \<Rightarrow>
                              price_payload e pack ''Coles response missing price''
                                price_total unit_price)))"

subsection \<open>Woolworths\<close>

text \<open>Lines 254-259.\<close>

definition woolworths_prices :: "env \<Rightarrow> json \<Rightarrow> error + json \<times> json" where
  "woolworths_prices e data =
     (case py_or (extract_path (python e) data (Some ''ProductDetail'')) (Inr data) of
        Inl err \<Rightarrow> Inl err
      | Inr product \<Rightarrow>
          (case py_or (extract_path (python e) product (Some ''Price.FinalPrice''))
                      (extract_path (python e) product (Some ''Price.SalePrice'')) of
             Inl err \<Rightarrow> Inl err
           | Inr price_total \<Rightarrow>
               (case extract_path (python e) product (Some ''Price.CupPrice'') of
                  Inl err \<Rightarrow> Inl err
                | Inr unit_price \<Rightarrow>
                    (case product of
                       JDict d \<Rightarrow>
                         if price_total = JNull then Inr (dict_get d ''Price'', unit_price)
                         else Inr (price_total, unit_price)
                     | _ \<Rightarrow> Inr (price_total, unit_price)))))"

text \<open>\<^verbatim>\<open>fetch_woolworths\<close> (lines 244-271).\<close>

definition fetch_woolworths :: "env \<Rightarrow> PackConfig \<Rightarrow> (error + json) \<times> request list" where
  "fetch_woolworths e pack =
     (if falsy_str (product_id pack) then
        (Inl (ValueError ''product_id required for Woolworths''), [])
      else
        (let hs = normalise_headers (headers pack);
             u = ''https://www.woolworths.com.au/apis/ui/products/'' @ the (product_id pack)
         in send e \<lparr>req_method = ''GET'', req_url = u, req_headers = Some hs, req_json = None,
                    req_timeout = 20\<rparr>
              (\<lambda>data. case woolworths_prices e data of
                         Inl err \<Rightarrow> Inl err
                       | Inr (price_total, unit_price) \<Rightarrow>
                           price_payload e pack ''Woolworths response missing price''
                             price_total unit_price)))"

section \<open>The registry\<close>

text \<open>The adapter functions as values, and \<^verbatim>\<open>FETCHERS\<close> (lines 274-281).\<close>

datatype fetcher =
    Fetch_dan_murphys
  | Fetch_bws
  | Fetch_liquorland_like
  | Fetch_coles
  | Fetch_woolworths

definition FETCHERS :: "(string \<times> fetcher) list" where
  "FETCHERS =
     [(''dan_murphys'', Fetch_dan_murphys),
      (''bws'', Fetch_bws),
      (''liquorland'', Fetch_liquorland_like),
      (''first_choice'', Fetch_liquorland_like),
      (''coles'', Fetch_coles),
      (''woolworths'', Fetch_woolworths)]"

text \<open>
  Calling an adapter with \<^verbatim>\<open>(session, pack)\<close> (\<open>None\<close>) or with
  \<^verbatim>\<open>(session, pack, credentials)\<close>: a call with the wrong number of arguments raises
  \<^verbatim>\<open>TypeError\<close>.
\<close>

fun call_fetcher :: "fetcher \<Rightarrow> env \<Rightarrow> PackConfig \<Rightarrow> (string \<times> string) list option \<Rightarrow> (error + json) \<times> request list" where
  "call_fetcher Fetch_dan_murphys e pack None = fetch_dan_murphys e pack"
| "call_fetcher Fetch_bws e pack None = fetch_bws e pack"
| "call_fetcher Fetch_liquorland_like e pack None = fetch_liquorland_like e pack"
| "call_fetcher Fetch_woolworths e pack None = fetch_woolworths e pack"
| "call_fetcher Fetch_coles e pack (Some credentials) = fetch_coles e pack credentials"
| "call_fetcher _ e pack _ = (Inl TypeError, [])"

section \<open>Records, persistence and the run\<close>

text \<open>
  \<^verbatim>\<open>round(x, 2)\<close>: a float goes to the nearest multiple of a hundredth, a tie to the
  even one; an integer is returned as it is.
\<close>

definition round_half_even :: "real \<Rightarrow> int" where
  "round_half_even x =
     (let f = \<lfloor>x\<rfloor>; d = x - of_int f
      in if d < 1 / 2 then f else if d > 1 / 2 then f + 1
         else if even f then f else f + 1)"

fun py_round2 :: "json \<Rightarrow> error + json" where
  "py_round2 (JFloat x) = Inr (JFloat (of_int (round_half_even (x * 100)) / 100))"
| "py_round2 (JInt i) = Inr (JInt i)"
| "py_round2 (JBool b) = Inr (JInt (if b then 1 else 0))"
| "py_round2 _ = Inl TypeError"

text \<open>\<^verbatim>\<open>payload[k]\<close>.\<close>

fun py_getitem :: "json \<Rightarrow> string \<Rightarrow> error + json" where
  "py_getitem (JDict d) k = (case map_of d k of None \<Rightarrow> Inl KeyError | Some v \<Rightarrow> Inr v)"
| "py_getitem _ k = Inl TypeError"

text \<open>\<^verbatim>\<open>build_entry\<close> (lines 290-299).\<close>

definition build_entry :: "env \<Rightarrow> PackConfig \<Rightarrow> json \<Rightarrow> error + json" where
  "build_entry e pack payload =
     (case py_getitem payload ''price_total'' of
        Inl err \<Rightarrow> Inl err
      | Inr pt \<Rightarrow>
          (case py_round2 pt of
             Inl err \<Rightarrow> Inl err
           | Inr price_total \<Rightarrow>
               (case py_getitem payload ''price_unit'' of
                  Inl err \<Rightarrow> Inl err
                | Inr pu \<Rightarrow>
                    (case py_round2 pu of
                       Inl err \<Rightarrow> Inl err
                     | Inr price_unit \<Rightarrow>
                         (case payload of
                            JDict d \<Rightarrow>
                              Inr (JDict
                                [(''retailer'', JStr (retailer pack)),
                                 (''suburb'', JStr (suburb pack)),
                                 (''pack_size'', JInt (pack_size pack)),
                                 (''price_total'', price_total),
                                 (''price_unit'', price_unit),
                                 (''url'', JStr (url pack)),
                                 (''checked_at'',
                                    (case map_of d ''checked_at'' of
                                       None \<Rightarrow> JInt (now e)
                                     | Some c \<Rightarrow> c))])
                          | _ \<Rightarrow> Inl AttributeError)))))"

text \<open>
  \<^verbatim>\<open>write_prices\<close> (lines 302-310): the document it dumps into \<^verbatim>\<open>DATA_FILE\<close>. The run
  leaves two kinds of trace outside: the requests it sends and the document it writes.
\<close>

definition write_prices :: "env \<Rightarrow> json list \<Rightarrow> json" where
  "write_prices e entries = JDict [(''updated_at'', JInt (now e)), (''items'', JList entries)]"

datatype event = HttpRequest request | WritePrices json

text \<open>
  The loop of \<^verbatim>\<open>main\<close> (lines 325-337), from the list \<^verbatim>\<open>entries\<close> so far: the final
  list and the requests sent. The \<^verbatim>\<open>except Exception\<close> clause covers the adapter and
  \<^verbatim>\<open>build_entry\<close>. Logging has no part in the results and is left out.
\<close>

fun main_loop :: "env \<Rightarrow> (string \<times> string) list \<Rightarrow> PackConfig list \<Rightarrow> json list \<Rightarrow> json list \<times> request list" where
  "main_loop e credentials [] entries = (entries, [])"
| "main_loop e credentials (pack # packs) entries =
     (case map_of FETCHERS (source pack) of
        None \<Rightarrow> main_loop e credentials packs entries
      | Some fetcher \<Rightarrow>
          (case call_fetcher fetcher e pack
                  (if source pack = ''coles'' then Some credentials else None) of
             (result, sent) \<Rightarrow>
               (case main_loop e credentials packs
                       (case result of
                          Inl err \<Rightarrow> entries
                        | Inr payload \<Rightarrow>
                            (case build_entry e pack payload of
                               Inl err \<Rightarrow> entries
                             | Inr entry \<Rightarrow> entries @ [entry])) of
                  (final, sent') \<Rightarrow> (final, sent @ sent'))))"

text \<open>
  \<^verbatim>\<open>main\<close> (lines 313-345), from the credentials and the packs that lines 314-316 read
  from the configuration: the exit code and the trace of the run.
\<close>

definition main :: "env \<Rightarrow> (string \<times> string) list \<Rightarrow> PackConfig list \<Rightarrow> int \<times> event list" where
  "main e credentials packs =
     (if packs = [] then (1, [])
      else
        (case main_loop e credentials packs [] of
           (entries, sent) \<Rightarrow>
             if entries = [] then (1, map HttpRequest sent)
             else (0, map HttpRequest sent @ [WritePrices (write_prices e entries)])))"



text \<open>
  What one pass of the loop adds to \<^verbatim>\<open>entries\<close>: nothing for an unregistered source key
  or a failure, the record of the pack otherwise.
\<close>

definition pack_entries :: "env \<Rightarrow> (string \<times> string) list \<Rightarrow> PackConfig \<Rightarrow> json list" where
  "pack_entries e credentials pack =
     (case map_of FETCHERS (source pack) of
        None \<Rightarrow> []
      | Some fetcher \<Rightarrow>
          (case fst (call_fetcher fetcher e pack
                       (if source pack = ''coles'' then Some credentials else None)) of
             Inl err \<Rightarrow> []
           | Inr payload \<Rightarrow>
               (case build_entry e pack payload of
                  Inl err \<Rightarrow> []
                | Inr entry \<Rightarrow> [entry])))"

section \<open>Example inputs\<close>

text \<open>
  An interpreter (its tables cut down to two spaces and the Arabic-Indic digits), a
  network that answers every request with the same body, and a pack with the given source
  key, product identifier and pack size.
\<close>

definition example_python :: interpreter where
  "example_python =
     \<lparr>unicode_isspace = (\<lambda>c. c = 133 \<or> c = 160),
      unicode_todecimal = (\<lambda>c. if 1632 \<le> c \<and> c \<le> 1641 then Some (c - 1632) else None),
      int_max_str_digits = 4300\<rparr>"

definition example_env :: "json \<Rightarrow> env" where
  "example_env body =
     \<lparr>http = (\<lambda>req. Some body), getenv = (\<lambda>name. None), float_of_str = (\<lambda>s. None),
      python = example_python, now = 1700000000\<rparr>"

definition example_pack :: "string \<Rightarrow> string option \<Rightarrow> int \<Rightarrow> PackConfig" where
  "example_pack src pid n =
     \<lparr>retailer = ''Example'', suburb = ''Sydney'', pack_size = n, url = ''https://example.com'',
      source = src, product_id = pid, store_id = None, headers = None, extra = None\<rparr>"

text \<open>A Dan Murphy's response whose \<^verbatim>\<open>"Price"\<close> object is \<open>price\<close>, and the request for product 123.\<close>

definition dan_murphys_body :: "json \<Rightarrow> json" where
  "dan_murphys_body price = JDict [(''Price'', price)]"

definition dan_murphys_request :: request where
  "dan_murphys_request =
     \<lparr>req_method = ''GET'',
      req_url = ''https://api.danmurphys.com.au/apis/ui/product/v3/detail/123?storeId=DMONLINE'',
      req_headers = None, req_json = None, req_timeout = 20\<rparr>"

text \<open>
  A run over three packs: an unregistered source key, a BWS pack without product
  identifier, and a Dan Murphy's pack whose response carries both prices.
\<close>

definition example_body :: json where
  "example_body =
     dan_murphys_body (JDict [(''FinalPrice'', JFloat 55.999), (''UnitPrice'', JFloat 2.333)])"

definition example_packs :: "PackConfig list" where
  "example_packs =
     [example_pack ''unknown'' (Some ''1'') 24, example_pack ''bws'' None 24,
      example_pack ''dan_murphys'' (Some ''123'') 24]"

definition example_payload :: json where
  "example_payload =
     JDict [(''price_total'', JFloat 55.999), (''price_unit'', JFloat 2.333),
            (''checked_at'', JInt 1700000000)]"

definition example_entry :: json where
  "example_entry =
     JDict [(''retailer'', JStr ''Example''),
            (''suburb'', JStr ''Sydney''),
            (''pack_size'', JInt 24),
            (''price_total'', JFloat 56.00),
            (''price_unit'', JFloat 2.33),
            (''url'', JStr ''https://example.com''),
            (''checked_at'', JInt 1700000000)]"




section \<open>The path extractor: properties\<close>

text \<open>The only exception that leaves the path extractor is the \<^verbatim>\<open>IndexError\<close> of line 93.\<close>

lemma extract_path_loop_error:
  "extract_path_loop py current parts = Inl err \<Longrightarrow> err = IndexError"
proof (induction py current parts rule: extract_path_loop.induct)
  case (1 py current)
  then show ?case by simp
next
  case (2 py current part parts)
  then show ?case
    by (cases current)
      (auto simp: list_index_def split: option.splits if_splits sum.splits)
qed

lemma extract_path_error:
  "extract_path py data dotted_path = Inl err \<Longrightarrow> err = IndexError"
  by (auto simp: extract_path_def split: option.splits if_splits dest: extract_path_loop_error)

text \<open>
  C3. The claim is that the path extractor never raises. The bounds check of line 91 has
  no lower bound: on the empty list and the segment \<open>-1\<close>, \<^verbatim>\<open>current[idx]\<close> raises
  \<^verbatim>\<open>IndexError\<close>.
\<close>

theorem extract_path_raises_IndexError:
  "extract_path py (JList []) (Some ''-1'') = Inl IndexError"
  by (simp add: extract_path_def py_int_def code_points_def to_ascii_def strip_def is_space_def
      py_nat_def is_digit_def list_index_def)

text \<open>
  C4. The claim is that on a list, a segment that is not a non-negative index within bounds
  gives \<^verbatim>\<open>None\<close>. The check of line 91 has no lower bound: the segment \<open>-1\<close> reads
  the last element of the list.
\<close>

theorem extract_path_negative_index:
  "extract_path py (JList [JInt 10, JInt 20]) (Some ''-1'') = Inr (JInt 20)"
  by (simp add: extract_path_def py_int_def code_points_def to_ascii_def strip_def is_space_def
      py_nat_def is_digit_def list_index_def)


section \<open>The adapters: properties\<close>








lemma dan_murphys_example_sent:
  "snd (fetch_dan_murphys (example_env body)
          (example_pack ''dan_murphys'' (Some ''123'') n)) = [dan_murphys_request]"
  by (simp add: fetch_dan_murphys_def example_pack_def example_env_def falsy_str_def send_def
      dan_murphys_request_def)

text \<open>
  C1. The claim is that every adapter derives the unit price from a total price that the
  response supplies without a unit price. The BWS adapter reads a top-level \<open>price\<close> as its
  price object before it falls back to it as the total (lines 151-152): on the response
  \<open>{"price": 48}\<close> and a pack of 24 it calls \<^verbatim>\<open>get\<close> on the number and raises
  \<^verbatim>\<open>AttributeError\<close>, where the claim gives a unit price of 2.
\<close>

theorem bws_top_level_price_raises_AttributeError:
  "fetch_bws (example_env (JDict [(''price'', JInt 48)])) (example_pack ''bws'' (Some ''123'') 24) =
     (Inl AttributeError,
      [\<lparr>req_method = ''GET'', req_url = ''https://bws.com.au/api/products/123'',
         req_headers = Some [(''User-Agent'', USER_AGENT), (''Accept'', ''application/json''),
                             (''Referer'', ''https://bws.com.au/''),
                             (''Origin'', ''https://bws.com.au'')],
         req_json = None, req_timeout = 20\<rparr>])"
  by (simp add: fetch_bws_def example_pack_def example_env_def falsy_str_def send_def
      bws_prices_def dict_get_def py_or_def normalise_headers_def setdefault_def USER_AGENT_def)

text \<open>
  C2. The claim is that with a pack size of 0, a total price and no unit price, the fetch
  fails with the missing-price error. Each adapter raises that \<^verbatim>\<open>ValueError\<close> for a missing
  total only; the missing unit price reaches \<^verbatim>\<open>float(unit_price)\<close>, which raises
  \<^verbatim>\<open>TypeError\<close> on \<^verbatim>\<open>None\<close>: here in the Dan Murphy's adapter, on a total of 48.
\<close>

theorem pack_size_0_raises_TypeError:
  "fetch_dan_murphys (example_env (dan_murphys_body (JDict [(''FinalPrice'', JInt 48)])))
     (example_pack ''dan_murphys'' (Some ''123'') 0) =
     (Inl TypeError, [dan_murphys_request])"
  by (simp add: fetch_dan_murphys_def example_pack_def example_env_def falsy_str_def send_def
      dan_murphys_prices_def dan_murphys_price_info_def dan_murphys_body_def
      dict_get_def py_or_def price_payload_def dan_murphys_request_def float_overflows_def)

lemma map_of_dict_update_absent:
  "map_of e k = None \<Longrightarrow> map_of (dict_update d e) k = map_of d k"
  unfolding dict_update_def
proof (induction e arbitrary: d)
  case Nil
  then show ?case by simp
next
  case (Cons kv e)
  obtain k' v' where kv: "kv = (k', v')" by (cases kv)
  from Cons.prems kv have ne: "k' \<noteq> k" and rest: "map_of e k = None"
    by (auto split: if_splits)
  show ?case
    using Cons.IH [OF rest, of "AList.update k' v' d"] ne kv
    by (simp add: AList.update_conv')
qed

lemma map_of_normalise_headers_absent:
  assumes "\<forall>h. hs = Some h \<longrightarrow> map_of h k = None"
      and "k \<noteq> ''User-Agent''" and "k \<noteq> ''Accept''"
  shows "map_of (normalise_headers hs) k = None"
  using assms
  by (cases hs) (auto simp: normalise_headers_def Let_def map_of_dict_update_absent)

lemma map_of_setdefault:
  "map_of (setdefault k v d) k' =
     (if k' = k \<and> map_of d k = None then Some v else map_of d k')"
  by (auto simp: setdefault_def map_add_def split: option.splits)

text \<open>
  C9. The keys \<open>liquorland\<close> and \<open>first_choice\<close> are registered with the same adapter, and
  the request of that adapter carries the \<open>Origin\<close> and \<open>Referer\<close> of First Choice when the
  pack's source key is \<open>first_choice\<close> and those of Liquorland for every other key (for a
  pack that has a product identifier and configures neither header itself).
\<close>

theorem liquorland_first_choice_origin:
  "map_of FETCHERS ''liquorland'' = Some Fetch_liquorland_like \<and>
   map_of FETCHERS ''first_choice'' = Some Fetch_liquorland_like \<and>
   (\<not> falsy_str (product_id pack) \<longrightarrow>
    (\<forall>h. headers pack = Some h \<longrightarrow> map_of h ''Origin'' = None \<and> map_of h ''Referer'' = None) \<longrightarrow>
    (\<exists>req hs. snd (fetch_liquorland_like e pack) = [req] \<and> req_headers req = Some hs \<and>
       map_of hs ''Origin'' =
         Some (if source pack = ''first_choice'' then ''https://www.firstchoiceliquor.com.au''
               else ''https://www.liquorland.com.au'') \<and>
       map_of hs ''Referer'' =
         Some (if source pack = ''first_choice'' then ''https://www.firstchoiceliquor.com.au/''
               else ''https://www.liquorland.com.au/'')))"
proof (intro conjI impI)
  show "map_of FETCHERS ''liquorland'' = Some Fetch_liquorland_like"
    by (simp add: FETCHERS_def)
  show "map_of FETCHERS ''first_choice'' = Some Fetch_liquorland_like"
    by (simp add: FETCHERS_def)
next
  assume pid: "\<not> falsy_str (product_id pack)"
    and hdr: "\<forall>h. headers pack = Some h \<longrightarrow> map_of h ''Origin'' = None \<and> map_of h ''Referer'' = None"
  have o: "map_of (normalise_headers (headers pack)) ''Origin'' = None"
    using hdr by (intro map_of_normalise_headers_absent) auto
  have r: "map_of (normalise_headers (headers pack)) ''Referer'' = None"
    using hdr by (intro map_of_normalise_headers_absent) auto
  let ?hs = "setdefault ''Referer'' (liquorland_origin pack @ ''/'')
               (setdefault ''Origin'' (liquorland_origin pack) (normalise_headers (headers pack)))"
  let ?req = "\<lparr>req_method = ''POST'', req_url = ''https://api.liquorland.com.au/graphql'',
               req_headers = Some ?hs,
               req_json = Some (JDict [(''query'', JStr liquorland_query),
                              (''variables'', JDict [(''id'', JStr (the (product_id pack)))])]),
               req_timeout = 20\<rparr>"
  have sent: "snd (fetch_liquorland_like e pack) = [?req]"
    using pid by (simp add: fetch_liquorland_like_def Let_def send_def split: option.splits)
  have "map_of ?hs ''Origin'' = Some (liquorland_origin pack)"
    using o by (simp add: map_of_setdefault)
  moreover have "map_of ?hs ''Referer'' = Some (liquorland_origin pack @ ''/'')"
    using r by (simp add: map_of_setdefault)
  ultimately show "\<exists>req hs. snd (fetch_liquorland_like e pack) = [req] \<and> req_headers req = Some hs \<and>
       map_of hs ''Origin'' =
         Some (if source pack = ''first_choice'' then ''https://www.firstchoiceliquor.com.au''
               else ''https://www.liquorland.com.au'') \<and>
       map_of hs ''Referer'' =
         Some (if source pack = ''first_choice'' then ''https://www.firstchoiceliquor.com.au/''
               else ''https://www.liquorland.com.au/'')"
    using sent by (simp add: liquorland_origin_def)
qed


theorem liquorland_first_choice_origin_witness:
  "\<not> falsy_str (product_id (example_pack ''first_choice'' (Some ''123'') 24)) \<and>
   headers (example_pack ''first_choice'' (Some ''123'') 24) = None \<and>
   (\<exists>req hs. snd (fetch_liquorland_like (example_env JNull)
                     (example_pack ''first_choice'' (Some ''123'') 24)) = [req] \<and>
      req_headers req = Some hs \<and>
      map_of hs ''Origin'' = Some ''https://www.firstchoiceliquor.com.au'' \<and>
      map_of hs ''Referer'' = Some ''https://www.firstchoiceliquor.com.au/'')"
proof -
  let ?pack = "example_pack ''first_choice'' (Some ''123'') 24"
  have pid: "\<not> falsy_str (product_id ?pack)"
    by (simp add: example_pack_def falsy_str_def)
  have hdr: "headers ?pack = None"
    by (simp add: example_pack_def)
  have src: "source ?pack = ''first_choice''"
    by (simp add: example_pack_def)
  show ?thesis
    using liquorland_first_choice_origin [of ?pack "example_env JNull"] pid hdr src
    by simp
qed

lemma coles_sent:
  assumes "coles_api_key e credentials = Some key" and "key \<noteq> []"
      and "\<not> falsy_str (product_id pack)"
  shows "snd (fetch_coles e pack credentials) =
           [\<lparr>req_method = ''GET'',
             req_url = ''https://api.coles.com.au/product/v1/productdetail/'' @ the (product_id pack),
             req_headers = Some (AList.update ''Ocp-Apim-Subscription-Key'' key
                                   (normalise_headers (headers pack))),
             req_json = None, req_timeout = 20\<rparr>]"
  using assms by (simp add: fetch_coles_def Let_def send_def falsy_str_def split: option.splits)

text \<open>
  C7. The Coles adapter: with no API key in the credentials and the environment variable
  unset, it raises the credential-missing \<^verbatim>\<open>ValueError\<close> and has sent no request; with a
  (non-empty) key in the credentials and the environment variable set, the key of the
  credentials is the one used, and the one the request carries.
\<close>

theorem coles_api_key_missing_or_configured:
  "(map_of credentials ''coles_api_key'' = None \<longrightarrow> getenv e ''COLES_API_KEY'' = None \<longrightarrow>
      fetch_coles e pack credentials =
        (Inl (ValueError ''Coles API key missing. Set COLES_API_KEY env var or config credential''),
         [])) \<and>
   (map_of credentials ''coles_api_key'' = Some key \<longrightarrow> key \<noteq> [] \<longrightarrow>
    getenv e ''COLES_API_KEY'' = Some other \<longrightarrow>
      coles_api_key e credentials = Some key \<and>
      (\<not> falsy_str (product_id pack) \<longrightarrow>
         (\<exists>req hs. snd (fetch_coles e pack credentials) = [req] \<and> req_headers req = Some hs \<and>
            map_of hs ''Ocp-Apim-Subscription-Key'' = Some key)))"
proof (intro conjI impI)
  assume "map_of credentials ''coles_api_key'' = None" and "getenv e ''COLES_API_KEY'' = None"
  then show "fetch_coles e pack credentials =
        (Inl (ValueError ''Coles API key missing. Set COLES_API_KEY env var or config credential''),
         [])"
    by (simp add: fetch_coles_def coles_api_key_def falsy_str_def)
next
  assume cfg: "map_of credentials ''coles_api_key'' = Some key" and ne: "key \<noteq> []"
  then show k: "coles_api_key e credentials = Some key"
    by (simp add: coles_api_key_def falsy_str_def)
  assume pid: "\<not> falsy_str (product_id pack)"
  show "\<exists>req hs. snd (fetch_coles e pack credentials) = [req] \<and> req_headers req = Some hs \<and>
            map_of hs ''Ocp-Apim-Subscription-Key'' = Some key"
    using coles_sent [OF k ne pid] by (simp add: AList.update_conv')
qed

theorem coles_api_key_missing_or_configured_witness:
  "map_of ([] :: (string \<times> string) list) ''coles_api_key'' = None \<and>
   getenv (example_env JNull) ''COLES_API_KEY'' = None \<and>
   fetch_coles (example_env JNull) (example_pack ''coles'' (Some ''123'') 24) [] =
     (Inl (ValueError ''Coles API key missing. Set COLES_API_KEY env var or config credential''),
      []) \<and>
   map_of [(''coles_api_key'', ''from-config'')] ''coles_api_key'' = Some ''from-config'' \<and>
   getenv ((example_env JNull)\<lparr>getenv := (\<lambda>name. Some ''from-environment'')\<rparr>) ''COLES_API_KEY'' =
     Some ''from-environment'' \<and>
   (\<exists>req hs. snd (fetch_coles ((example_env JNull)\<lparr>getenv := (\<lambda>name. Some ''from-environment'')\<rparr>)
                     (example_pack ''coles'' (Some ''123'') 24)
                     [(''coles_api_key'', ''from-config'')]) = [req] \<and>
      req_headers req = Some hs \<and>
      map_of hs ''Ocp-Apim-Subscription-Key'' = Some ''from-config'')"
proof -
  let ?pack = "example_pack ''coles'' (Some ''123'') 24"
  let ?e = "(example_env JNull)\<lparr>getenv := (\<lambda>name. Some ''from-environment'')\<rparr>"
  have none: "map_of ([] :: (string \<times> string) list) ''coles_api_key'' = None"
    by simp
  have unset: "getenv (example_env JNull) ''COLES_API_KEY'' = None"
    by (simp add: example_env_def)
  have cfg: "map_of [(''coles_api_key'', ''from-config'')] ''coles_api_key'' = Some ''from-config''"
    by simp
  have ne: "''from-config'' \<noteq> []"
    by simp
  have set: "getenv ?e ''COLES_API_KEY'' = Some ''from-environment''"
    by simp
  have pid: "\<not> falsy_str (product_id ?pack)"
    by (simp add: example_pack_def falsy_str_def)
  show ?thesis
    using coles_api_key_missing_or_configured
            [of "[]" "example_env JNull" ?pack "''from-config''" "''from-environment''"]
          coles_api_key_missing_or_configured
            [of "[(''coles_api_key'', ''from-config'')]" ?e ?pack "''from-config''"
                "''from-environment''"]
          none unset cfg ne set pid
    by simp
qed

section \<open>The run: properties\<close>

lemma main_loop_entries:
  "fst (main_loop e credentials packs entries) =
     entries @ concat (map (pack_entries e credentials) packs)"
proof (induction packs arbitrary: entries)
  case Nil
  then show ?case by simp
next
  case (Cons pack packs)
  show ?case
  proof (cases "map_of FETCHERS (source pack)")
    case None
    then show ?thesis
      using Cons.IH [of entries] by (simp add: pack_entries_def)
  next
    case (Some fetcher)
    obtain result sent where call:
      "call_fetcher fetcher e pack (if source pack = ''coles'' then Some credentials else None) =
         (result, sent)"
      by (cases "call_fetcher fetcher e pack (if source pack = ''coles'' then Some credentials else None)")
    let ?entries' = "case result of Inl err \<Rightarrow> entries
                     | Inr payload \<Rightarrow> (case build_entry e pack payload of
                                          Inl err \<Rightarrow> entries | Inr entry \<Rightarrow> entries @ [entry])"
    have step: "fst (main_loop e credentials (pack # packs) entries) =
                fst (main_loop e credentials packs ?entries')"
      using Some call by (simp split: prod.splits)
    have "?entries' = entries @ pack_entries e credentials pack"
      using Some call by (simp add: pack_entries_def split: sum.splits)
    then show ?thesis
      using step Cons.IH [of ?entries'] by simp
  qed
qed

lemma price_payload_shape:
  "price_payload e pack msg price_total unit_price = Inr payload \<Longrightarrow>
   \<exists>t u. payload = JDict [(''price_total'', JFloat t), (''price_unit'', JFloat u),
                          (''checked_at'', JInt (now e))]"
  by (auto simp: price_payload_def split: if_splits sum.splits)

lemma send_shape:
  assumes "fst (send e r k) = Inr payload"
  shows "\<exists>data. k data = Inr payload"
  using assms by (auto simp: send_def split: option.splits)

lemma call_fetcher_shape:
  assumes "fst (call_fetcher f e pack args) = Inr payload"
  shows "\<exists>t u. payload = JDict [(''price_total'', JFloat t), (''price_unit'', JFloat u),
                                (''checked_at'', JInt (now e))]"
proof (cases f)
  case Fetch_dan_murphys
  with assms show ?thesis
    by (cases args)
      (auto simp: fetch_dan_murphys_def Let_def
        split: if_splits sum.splits prod.splits dest!: send_shape price_payload_shape)
next
  case Fetch_bws
  with assms show ?thesis
    by (cases args)
      (auto simp: fetch_bws_def Let_def
        split: if_splits sum.splits prod.splits dest!: send_shape price_payload_shape)
next
  case Fetch_liquorland_like
  with assms show ?thesis
    by (cases args)
      (auto simp: fetch_liquorland_like_def Let_def
        split: if_splits sum.splits prod.splits dest!: send_shape price_payload_shape)
next
  case Fetch_coles
  with assms show ?thesis
    by (cases args)
      (auto simp: fetch_coles_def Let_def
        split: if_splits sum.splits prod.splits dest!: send_shape price_payload_shape)
next
  case Fetch_woolworths
  with assms show ?thesis
    by (cases args)
      (auto simp: fetch_woolworths_def Let_def
        split: if_splits sum.splits prod.splits dest!: send_shape price_payload_shape)
qed

lemma build_entry_float_payload:
  "build_entry e pack (JDict [(''price_total'', JFloat t), (''price_unit'', JFloat u),
                              (''checked_at'', c)]) =
     Inr (JDict [(''retailer'', JStr (retailer pack)),
                 (''suburb'', JStr (suburb pack)),
                 (''pack_size'', JInt (pack_size pack)),
                 (''price_total'', JFloat (of_int (round_half_even (t * 100)) / 100)),
                 (''price_unit'', JFloat (of_int (round_half_even (u * 100)) / 100)),
                 (''url'', JStr (url pack)),
                 (''checked_at'', c)])"
  by (simp add: build_entry_def)

lemma round_half_even_near: "\<bar>real_of_int (round_half_even x) - x\<bar> \<le> 1 / 2"
  unfolding round_half_even_def Let_def by (auto; linarith)

lemma pack_entries_built:
  assumes "entry \<in> set (pack_entries e credentials pack)"
  shows "\<exists>t u. build_entry e pack
                  (JDict [(''price_total'', JFloat t), (''price_unit'', JFloat u),
                          (''checked_at'', JInt (now e))]) = Inr entry"
proof (cases "map_of FETCHERS (source pack)")
  case None
  with assms show ?thesis by (simp add: pack_entries_def)
next
  case (Some fetcher)
  show ?thesis
  proof (cases "fst (call_fetcher fetcher e pack
                       (if source pack = ''coles'' then Some credentials else None))")
    case (Inl err)
    with assms Some show ?thesis by (simp add: pack_entries_def)
  next
    case (Inr payload)
    with assms Some have "build_entry e pack payload = Inr entry"
      by (simp add: pack_entries_def split: sum.splits)
    then show ?thesis
      using call_fetcher_shape [OF Inr] by auto
  qed
qed

lemma example_build_entry:
  "build_entry e (example_pack ''dan_murphys'' (Some ''123'') 24) example_payload =
     Inr example_entry"
proof -
  have a: "round_half_even (55999 / 10) = 5600"
    by (simp add: round_half_even_def Let_def)
  have b: "round_half_even (2333 / 10) = 233"
    by (simp add: round_half_even_def Let_def)
  show ?thesis
    by (simp add: example_payload_def example_entry_def build_entry_float_payload a b
        example_pack_def)
qed

lemma example_fetch:
  "fetch_dan_murphys (example_env example_body) (example_pack ''dan_murphys'' (Some ''123'') 24) =
     (Inr example_payload, [dan_murphys_request])"
  by (simp add: example_body_def example_payload_def fetch_dan_murphys_def example_pack_def
      example_env_def falsy_str_def send_def dan_murphys_prices_def dan_murphys_price_info_def
      dan_murphys_body_def dict_get_def py_or_def price_payload_def dan_murphys_request_def)

lemma example_sources:
  "map_of FETCHERS (source (example_pack ''unknown'' (Some ''1'') 24)) = None"
  "map_of FETCHERS (source (example_pack ''bws'' None 24)) = Some Fetch_bws"
  "map_of FETCHERS (source (example_pack ''dan_murphys'' (Some ''123'') 24)) =
     Some Fetch_dan_murphys"
  "source (example_pack ''bws'' None 24) \<noteq> ''coles''"
  "source (example_pack ''dan_murphys'' (Some ''123'') 24) \<noteq> ''coles''"
  by (simp_all add: FETCHERS_def example_pack_def)

lemma example_failing:
  "fetch_bws e (example_pack ''bws'' None 24) =
     (Inl (ValueError ''product_id required for BWS''), [])"
  by (simp add: fetch_bws_def example_pack_def falsy_str_def)

lemma example_run:
  "fst (main_loop (example_env example_body) [] example_packs []) = [example_entry]"
proof -
  have unknown: "pack_entries (example_env example_body) []
                   (example_pack ''unknown'' (Some ''1'') 24) = []"
    by (simp add: pack_entries_def example_sources)
  have bws: "pack_entries (example_env example_body) [] (example_pack ''bws'' None 24) = []"
    by (simp add: pack_entries_def example_sources example_failing)
  have dm: "pack_entries (example_env example_body) []
              (example_pack ''dan_murphys'' (Some ''123'') 24) = [example_entry]"
    by (simp add: pack_entries_def example_sources example_fetch example_build_entry)
  show ?thesis
    by (simp only: main_loop_entries) (simp add: example_packs_def unknown bws dm)
qed

lemma example_unknown_run:
  "main_loop e credentials [example_pack ''unknown'' (Some ''1'') 24] [] = ([], [])"
  by (simp add: example_sources)

lemma mset_pack_entries:
  "mset (concat (map (pack_entries e credentials) packs)) =
     sum_mset (image_mset (\<lambda>pack. mset (pack_entries e credentials pack)) (mset packs))"
proof -
  have "mset (concat (map (pack_entries e credentials) packs)) =
          sum_list (map (\<lambda>pack. mset (pack_entries e credentials pack)) packs)"
    by (simp add: mset_concat comp_def)
  also have "\<dots> = sum_mset (mset (map (\<lambda>pack. mset (pack_entries e credentials pack)) packs))"
    by (simp only: sum_mset_sum_list)
  finally show ?thesis by simp
qed

lemma main_result:
  "main e credentials packs =
     (if fst (main_loop e credentials packs []) = [] then
        (1, if packs = [] then [] else map HttpRequest (snd (main_loop e credentials packs [])))
      else (0, map HttpRequest (snd (main_loop e credentials packs [])) @
               [WritePrices (write_prices e (fst (main_loop e credentials packs [])))]))"
  by (cases packs) (auto simp: main_def split: prod.splits)

text \<open>
  C5. Three packs in any order, one with a source key that is not registered, one whose
  adapter raises and one whose adapter returns a payload: the run collects exactly one
  record, the one built from that payload, writes it, and exits with code 0.
\<close>

theorem three_packs_one_record:
  assumes "mset packs = {#p_unknown, p_failing, p_good#}"
      and "map_of FETCHERS (source p_unknown) = None"
      and "map_of FETCHERS (source p_failing) = Some f"
      and "fst (call_fetcher f e p_failing
                  (if source p_failing = ''coles'' then Some credentials else None)) = Inl err"
      and "map_of FETCHERS (source p_good) = Some g"
      and "fst (call_fetcher g e p_good
                  (if source p_good = ''coles'' then Some credentials else None)) = Inr payload"
  shows "\<exists>entry. build_entry e p_good payload = Inr entry \<and>
                 fst (main_loop e credentials packs []) = [entry] \<and>
                 fst (main e credentials packs) = 0 \<and>
                 (\<exists>sent. snd (main e credentials packs) =
                           map HttpRequest sent @ [WritePrices (write_prices e [entry])])"
proof -
  obtain t u where payload:
    "payload = JDict [(''price_total'', JFloat t), (''price_unit'', JFloat u),
                      (''checked_at'', JInt (now e))]"
    using call_fetcher_shape [OF assms(6)] by blast
  then obtain entry where entry: "build_entry e p_good payload = Inr entry"
    by (simp add: build_entry_float_payload)
  have unknown: "pack_entries e credentials p_unknown = []"
    using assms(2) by (simp add: pack_entries_def)
  have failing: "pack_entries e credentials p_failing = []"
    using assms(3,4) by (simp add: pack_entries_def)
  have good: "pack_entries e credentials p_good = [entry]"
    using assms(5,6) entry by (simp add: pack_entries_def)
  have "mset (concat (map (pack_entries e credentials) packs)) = {#entry#}"
    using unknown failing good by (simp add: mset_pack_entries assms(1))
  then have entries: "fst (main_loop e credentials packs []) = [entry]"
    by (simp add: main_loop_entries)
  then show ?thesis
    using entry by (auto simp: main_result)
qed

theorem three_packs_one_record_witness:
  "mset example_packs =
     {#example_pack ''unknown'' (Some ''1'') 24, example_pack ''bws'' None 24,
       example_pack ''dan_murphys'' (Some ''123'') 24#} \<and>
   map_of FETCHERS (source (example_pack ''unknown'' (Some ''1'') 24)) = None \<and>
   map_of FETCHERS (source (example_pack ''bws'' None 24)) = Some Fetch_bws \<and>
   fst (call_fetcher Fetch_bws (example_env example_body) (example_pack ''bws'' None 24) None) =
     Inl (ValueError ''product_id required for BWS'') \<and>
   map_of FETCHERS (source (example_pack ''dan_murphys'' (Some ''123'') 24)) =
     Some Fetch_dan_murphys \<and>
   fst (call_fetcher Fetch_dan_murphys (example_env example_body)
          (example_pack ''dan_murphys'' (Some ''123'') 24) None) = Inr example_payload \<and>
   fst (main_loop (example_env example_body) [] example_packs []) = [example_entry] \<and>
   fst (main (example_env example_body) [] example_packs) = 0 \<and>
   (\<exists>sent. snd (main (example_env example_body) [] example_packs) =
             map HttpRequest sent @
             [WritePrices (write_prices (example_env example_body) [example_entry])])"
proof -
  let ?e = "example_env example_body"
  let ?u = "example_pack ''unknown'' (Some ''1'') 24"
  let ?f = "example_pack ''bws'' None 24"
  let ?g = "example_pack ''dan_murphys'' (Some ''123'') 24"
  have packs: "mset example_packs = {#?u, ?f, ?g#}"
    by (simp add: example_packs_def)
  have unknown: "map_of FETCHERS (source ?u) = None"
    by (rule example_sources)
  have reg_f: "map_of FETCHERS (source ?f) = Some Fetch_bws"
    by (rule example_sources)
  have fails: "fst (call_fetcher Fetch_bws ?e ?f (if source ?f = ''coles'' then Some [] else None)) =
                 Inl (ValueError ''product_id required for BWS'')"
    by (simp add: example_sources example_failing)
  have reg_g: "map_of FETCHERS (source ?g) = Some Fetch_dan_murphys"
    by (rule example_sources)
  have good: "fst (call_fetcher Fetch_dan_murphys ?e ?g
                     (if source ?g = ''coles'' then Some [] else None)) = Inr example_payload"
    by (simp add: example_sources example_fetch)
  show ?thesis
    using three_packs_one_record [OF packs unknown reg_f fails reg_g good]
      packs unknown reg_f fails reg_g good
    by (simp add: example_sources example_build_entry)
qed

text \<open>
  C6. A run that collects no record exits with code 1 and writes nothing. Whenever a
  document is written, the run has collected at least one record and exits with code 0;
  the document holds the records of the whole loop, and the write is the last event of the
  run, after every request of the loop.
\<close>

theorem no_records_no_write:
  "(fst (main_loop e credentials packs []) = [] \<longrightarrow>
      fst (main e credentials packs) = 1 \<and>
      (\<forall>doc. WritePrices doc \<notin> set (snd (main e credentials packs)))) \<and>
   (\<forall>doc. WritePrices doc \<in> set (snd (main e credentials packs)) \<longrightarrow>
      fst (main_loop e credentials packs []) \<noteq> [] \<and>
      fst (main e credentials packs) = 0 \<and>
      doc = write_prices e (fst (main_loop e credentials packs [])) \<and>
      snd (main e credentials packs) =
        map HttpRequest (snd (main_loop e credentials packs [])) @ [WritePrices doc])"
  by (auto simp: main_result)

theorem no_records_no_write_witness:
  "fst (main_loop (example_env example_body) [] [example_pack ''unknown'' (Some ''1'') 24] []) = [] \<and>
   main (example_env example_body) [] [example_pack ''unknown'' (Some ''1'') 24] = (1, []) \<and>
   WritePrices (write_prices (example_env example_body) [example_entry])
     \<in> set (snd (main (example_env example_body) [] example_packs)) \<and>
   fst (main (example_env example_body) [] example_packs) = 0 \<and>
   snd (main (example_env example_body) [] example_packs) =
     map HttpRequest (snd (main_loop (example_env example_body) [] example_packs [])) @
     [WritePrices (write_prices (example_env example_body) [example_entry])]"
proof -
  let ?e = "example_env example_body"
  let ?u = "example_pack ''unknown'' (Some ''1'') 24"
  have none: "fst (main_loop ?e [] [?u] []) = []"
    by (simp only: example_unknown_run fst_conv)
  have sent: "snd (main_loop ?e [] [?u] []) = []"
    by (simp only: example_unknown_run snd_conv)
  have written: "WritePrices (write_prices ?e [example_entry])
                   \<in> set (snd (main ?e [] example_packs))"
    by (simp add: main_result example_run del: main_loop.simps)
  show ?thesis
    using no_records_no_write [of ?e "[]" "[?u]"] no_records_no_write [of ?e "[]" example_packs]
      none sent written
    by (simp add: main_result prod_eq_iff example_run del: main_loop.simps)
qed

text \<open>
  C8. Every record the run collects is built by \<^verbatim>\<open>build_entry\<close> from a payload of two
  floats; \<^verbatim>\<open>build_entry\<close> turns the floats \<open>t\<close> and \<open>u\<close> into whole numbers of hundredths,
  at most half a hundredth away; the payload 55.999 and 2.333 gives 56.00 and 2.33.
\<close>

theorem persisted_prices_rounded:
  "(\<forall>entry \<in> set (fst (main_loop e credentials packs [])).
      \<exists>pack t u. pack \<in> set packs \<and>
        build_entry e pack (JDict [(''price_total'', JFloat t), (''price_unit'', JFloat u),
                                   (''checked_at'', JInt (now e))]) = Inr entry) \<and>
   (\<exists>k m. build_entry e pack (JDict [(''price_total'', JFloat t), (''price_unit'', JFloat u),
                                     (''checked_at'', c)]) =
            Inr (JDict [(''retailer'', JStr (retailer pack)),
                        (''suburb'', JStr (suburb pack)),
                        (''pack_size'', JInt (pack_size pack)),
                        (''price_total'', JFloat (real_of_int k / 100)),
                        (''price_unit'', JFloat (real_of_int m / 100)),
                        (''url'', JStr (url pack)),
                        (''checked_at'', c)]) \<and>
          \<bar>real_of_int k / 100 - t\<bar> \<le> 1 / 200 \<and> \<bar>real_of_int m / 100 - u\<bar> \<le> 1 / 200) \<and>
   build_entry e (example_pack ''dan_murphys'' (Some ''123'') 24)
     (JDict [(''price_total'', JFloat 55.999), (''price_unit'', JFloat 2.333),
             (''checked_at'', JInt 1700000000)]) =
     Inr (JDict [(''retailer'', JStr ''Example''),
                 (''suburb'', JStr ''Sydney''),
                 (''pack_size'', JInt 24),
                 (''price_total'', JFloat 56.00),
                 (''price_unit'', JFloat 2.33),
                 (''url'', JStr ''https://example.com''),
                 (''checked_at'', JInt 1700000000)])"
proof (intro conjI ballI)
  fix entry
  assume "entry \<in> set (fst (main_loop e credentials packs []))"
  then obtain p where "p \<in> set packs" and "entry \<in> set (pack_entries e credentials p)"
    by (auto simp: main_loop_entries)
  then show "\<exists>pack t u. pack \<in> set packs \<and>
        build_entry e pack (JDict [(''price_total'', JFloat t), (''price_unit'', JFloat u),
                                   (''checked_at'', JInt (now e))]) = Inr entry"
    using pack_entries_built by blast
next
  have near: "\<bar>real_of_int (round_half_even (x * 100)) / 100 - x\<bar> \<le> 1 / 200" for x
    using round_half_even_near [of "x * 100"] by (simp add: field_simps)
  show "\<exists>k m. build_entry e pack (JDict [(''price_total'', JFloat t), (''price_unit'', JFloat u),
                                     (''checked_at'', c)]) =
            Inr (JDict [(''retailer'', JStr (retailer pack)),
                        (''suburb'', JStr (suburb pack)),
                        (''pack_size'', JInt (pack_size pack)),
                        (''price_total'', JFloat (real_of_int k / 100)),
                        (''price_unit'', JFloat (real_of_int m / 100)),
                        (''url'', JStr (url pack)),
                        (''checked_at'', c)]) \<and>
          \<bar>real_of_int k / 100 - t\<bar> \<le> 1 / 200 \<and> \<bar>real_of_int m / 100 - u\<bar> \<le> 1 / 200"
    using near [of t] near [of u] build_entry_float_payload [of e pack t u c] by blast
next
  show "build_entry e (example_pack ''dan_murphys'' (Some ''123'') 24)
     (JDict [(''price_total'', JFloat 55.999), (''price_unit'', JFloat 2.333),
             (''checked_at'', JInt 1700000000)]) =
     Inr (JDict [(''retailer'', JStr ''Example''),
                 (''suburb'', JStr ''Sydney''),
                 (''pack_size'', JInt 24),
                 (''price_total'', JFloat 56.00),
                 (''price_unit'', JFloat 2.33),
                 (''url'', JStr ''https://example.com''),
                 (''checked_at'', JInt 1700000000)])"
    using example_build_entry [of e] by (simp only: example_payload_def example_entry_def)
qed

theorem persisted_prices_rounded_witness:
  "example_entry \<in> set (fst (main_loop (example_env example_body) [] example_packs [])) \<and>
   (\<exists>pack t u. pack \<in> set example_packs \<and>
      build_entry (example_env example_body) pack
        (JDict [(''price_total'', JFloat t), (''price_unit'', JFloat u),
                (''checked_at'', JInt (now (example_env example_body)))]) = Inr example_entry)"
proof -
  have mem: "example_entry \<in> set (fst (main_loop (example_env example_body) [] example_packs []))"
    by (simp add: example_run)
  show ?thesis
    using persisted_prices_rounded [of "example_env example_body" "[]" example_packs] mem
    by blast
qed

section \<open>Prices of zero\<close>












end
